theory Spec2Isabelle
  imports
    Complex_Main
    "HOL-Library.Char_ord"
    "HOL-Library.List_Lexorder"
    "HOL-Library.Product_Lexorder"
begin

section \<open>The input tables of \<open>Clusterer\<close>\<close>

text \<open>
  \<open>src/clusterer.py\<close> keeps three pandas tables in a \<open>Clusterer\<close> object. A table is
  modelled as the list of its rows, a row as a record of the columns the code reads.
  A cell that pandas holds as \<open>NaN\<close> (missing) is \<open>None\<close>. A number of a table is a
  finite float64 value, written as the rational it is read from. The model compares
  and copies numbers; the one place where pandas computes with them, the mean of
  \<open>pivot_table\<close>, is a parameter of the model.
\<close>

record cocktail =
  name :: "string option"
  abv :: "rat option"

text \<open>The column \<open>type\<close> of the ingredients is the field \<open>ingr_type\<close>.\<close>

record ingredient =
  name :: "string option"
  ingr_type :: "string option"
  generalized_type :: "string option"

record composition =
  cocktail_name :: "string option"
  ingredient_name :: "string option"
  volume_oz :: "rat option"

record clusterer =
  cocktails :: "cocktail list"
  ingredients :: "ingredient list"
  cocktails_and_ingredients :: "composition list"

section \<open>\<open>generate_cocktails_and_ingredients_matrix_with_volumes\<close>\<close>

text \<open>
  Line 28: \<open>df[['cocktail_name', 'ingredient_name', 'volume_oz']].fillna(0.01)\<close>.
  \<open>fillna\<close> fills every missing cell of the three selected columns, a missing name
  as well as a missing volume, so a label of the filled table is a string or the
  number \<open>0.01\<close>.
\<close>

datatype label = Num rat | Str string

definition fillna_label :: "string option \<Rightarrow> label" where
  "fillna_label x = (case x of None \<Rightarrow> Num (1 / 100) | Some s \<Rightarrow> Str s)"

definition fillna_volume :: "rat option \<Rightarrow> rat" where
  "fillna_volume x = (case x of None \<Rightarrow> 1 / 100 | Some v \<Rightarrow> v)"

type_synonym volume_df = "(label \<times> label \<times> rat) list"

definition fillna :: "composition list \<Rightarrow> volume_df" where
  "fillna df =
     map (\<lambda>r. (fillna_label (cocktail_name r),
               fillna_label (ingredient_name r),
               fillna_volume (volume_oz r))) df"

text \<open>
  Lines 30 to 33: \<open>pivot_table(index='cocktail_name', columns='ingredient_name',
  values='volume_oz', fill_value=0)\<close>. The group keys come out sorted and without
  repetition; in a column of mixed labels pandas orders numbers before strings. A
  pair with no group is filled with \<open>fill_value\<close>.

  No \<open>aggfunc\<close> is passed, so pandas aggregates the values of each (index, column)
  group, in table order, with its default \<open>'mean'\<close>. pandas computes that mean in
  float64, with rounding; the computation is library code and not in the source. The
  model takes it as the parameter \<open>aggfunc\<close>, here \<open>float64_mean\<close>: the function that
  gives the float64 mean of a nonempty list of float64 values. The cells are finite
  numbers, so the model covers the tables none of whose group means overflows.
\<close>

fun label_key :: "label \<Rightarrow> nat \<times> rat \<times> string" where
  "label_key (Num x) = (0, x, [])"
| "label_key (Str s) = (1, 0, s)"

definition sorted_uniques :: "label list \<Rightarrow> label list" where
  "sorted_uniques xs = sort_key label_key (remdups xs)"

definition group_values :: "volume_df \<Rightarrow> label \<Rightarrow> label \<Rightarrow> rat list" where
  "group_values df c i = map (\<lambda>r. snd (snd r)) (filter (\<lambda>r. fst r = c \<and> fst (snd r) = i) df)"

definition pivot_cell ::
  "(rat list \<Rightarrow> rat) \<Rightarrow> rat \<Rightarrow> volume_df \<Rightarrow> label \<Rightarrow> label \<Rightarrow> rat" where
  "pivot_cell aggfunc fill_value df c i =
     (if group_values df c i = [] then fill_value else aggfunc (group_values df c i))"

record frame =
  index :: "label list"
  columns :: "label list"
  data :: "rat list list"

definition pivot_table :: "volume_df \<Rightarrow> (rat list \<Rightarrow> rat) \<Rightarrow> rat \<Rightarrow> frame" where
  "pivot_table df aggfunc fill_value =
     (let idx = sorted_uniques (map fst df);
          cols = sorted_uniques (map (\<lambda>r. fst (snd r)) df)
      in \<lparr>index = idx, columns = cols,
          data = map (\<lambda>c. map (\<lambda>i. pivot_cell aggfunc fill_value df c i) cols) idx\<rparr>)"

definition generate_cocktails_and_ingredients_matrix_with_volumes ::
  "(rat list \<Rightarrow> rat) \<Rightarrow> clusterer \<Rightarrow> frame" where
  "generate_cocktails_and_ingredients_matrix_with_volumes float64_mean self =
     (let volume_df = fillna (cocktails_and_ingredients self)
      in pivot_table volume_df float64_mean 0)"

section \<open>\<open>generate_table_with_cocktails_and_their_main_ingr_type\<close>\<close>

text \<open>
  Lines 43 to 46: \<open>cocktails_and_ingredients.set_index('cocktail_name').join(
  cocktails.set_index('name')[['abv']], how='left').reset_index()\<close>. A left join keeps
  every composition row, in order, once for each cocktail row of the same name, and
  once with a missing \<open>abv\<close> when there is none. pandas matches a missing key with a
  missing key, which is what equality on \<open>option\<close> does.
\<close>

record with_abv = composition +
  abv :: "rat option"

definition add_abv :: "composition \<Rightarrow> rat option \<Rightarrow> with_abv" where
  "add_abv r a =
     \<lparr>cocktail_name = cocktail_name r, ingredient_name = ingredient_name r,
      volume_oz = volume_oz r, abv = a\<rparr>"

definition join_left_abv :: "composition list \<Rightarrow> cocktail list \<Rightarrow> with_abv list" where
  "join_left_abv left right =
     concat (map (\<lambda>r.
       (let ms = filter (\<lambda>c. cocktail.name c = cocktail_name r) right
        in if ms = [] then [add_abv r None] else map (\<lambda>c. add_abv r (cocktail.abv c)) ms)) left)"

text \<open>
  Lines 48 to 50: \<open>ingredients[['name', 'type', 'generalized_type']].merge(result_df,
  left_on='name', right_on='ingredient_name', how='inner')\<close>. An inner join keeps the
  order of the left table, here the ingredients; a row of either side without a
  partner is dropped. Line 53 drops the column \<open>name\<close>, so the row type has none.
\<close>

record result_row = with_abv +
  ingr_type :: "string option"
  generalized_type :: "string option"

definition add_type :: "ingredient \<Rightarrow> with_abv \<Rightarrow> result_row" where
  "add_type i r =
     \<lparr>cocktail_name = cocktail_name r, ingredient_name = ingredient_name r,
      volume_oz = volume_oz r, abv = with_abv.abv r,
      ingr_type = ingredient.ingr_type i,
      generalized_type = ingredient.generalized_type i\<rparr>"

definition merge_inner :: "ingredient list \<Rightarrow> with_abv list \<Rightarrow> result_row list" where
  "merge_inner left right =
     concat (map (\<lambda>i.
       map (add_type i) (filter (\<lambda>r. ingredient_name r = ingredient.name i) right)) left)"

text \<open>
  Line 52: \<open>dropna(subset=['type'])\<close>. \<open>joined_df\<close> is the table after line 53.
\<close>

definition dropna_type :: "result_row list \<Rightarrow> result_row list" where
  "dropna_type df = filter (\<lambda>r. result_row.ingr_type r \<noteq> None) df"

definition joined_df :: "clusterer \<Rightarrow> result_row list" where
  "joined_df self =
     dropna_type
       (merge_inner (ingredients self)
         (join_left_abv (cocktails_and_ingredients self) (cocktails self)))"

text \<open>
  Line 55: \<open>sort_values(by='cocktail_name', ascending=True)\<close>. With one sort column
  pandas uses its default \<open>kind='quicksort'\<close>, which is not stable, so the order of the
  rows of one cocktail after this line is not fixed by the source. The sort is a
  parameter of the model; \<open>stable_sort_by_cocktail_name\<close> is the instance that keeps
  equal names in table order. Missing names sort last.
\<close>

definition name_key :: "string option \<Rightarrow> nat \<times> string" where
  "name_key n = (case n of None \<Rightarrow> (1, []) | Some s \<Rightarrow> (0, s))"

definition stable_sort_by_cocktail_name :: "result_row list \<Rightarrow> result_row list" where
  "stable_sort_by_cocktail_name df = sort_key (\<lambda>r. name_key (cocktail_name r)) df"

definition result_df :: "(result_row list \<Rightarrow> result_row list) \<Rightarrow> clusterer \<Rightarrow> result_row list" where
  "result_df sort_by_cocktail_name self = sort_by_cocktail_name (joined_df self)"

text \<open>
  Lines 57 to 64. \<open>sort_values(by=['cocktail_name', 'volume_oz'], ascending=[True, False])\<close>
  with two sort columns is a stable lexicographic sort; missing volumes go last
  within a cocktail whatever the direction. \<open>drop_duplicates(subset=['cocktail_name'],
  keep='first')\<close> keeps the first row of every cocktail.
\<close>

definition volume_key :: "rat option \<Rightarrow> nat \<times> rat" where
  "volume_key v = (case v of None \<Rightarrow> (1, 0) | Some x \<Rightarrow> (0, - x))"

fun drop_duplicates :: "('a \<Rightarrow> 'k) \<Rightarrow> 'a list \<Rightarrow> 'a list" where
  "drop_duplicates cols [] = []"
| "drop_duplicates cols (x # xs) =
     x # drop_duplicates cols (filter (\<lambda>y. cols y \<noteq> cols x) xs)"

definition max_volume_type_df :: "result_row list \<Rightarrow> (string option \<times> string option) list" where
  "max_volume_type_df df =
     map (\<lambda>r. (cocktail_name r, result_row.ingr_type r))
       (drop_duplicates cocktail_name
         (sort_key (\<lambda>r. (name_key (cocktail_name r), volume_key (volume_oz r)))
           (filter (\<lambda>r. result_row.generalized_type r = Some ''Alcoholic'') df)))"

text \<open>
  Line 66: \<open>result_df.merge(max_volume_type_df, on='cocktail_name', how='left')\<close>; line 68
  projects to \<open>['primary_alcohol_type', 'cocktail_name']\<close>; line 69 drops repeated rows;
  line 70, \<open>reset_index\<close>, turns the row numbers of the merged table into the column
  \<open>index\<close>. An output row is \<open>(index, primary_alcohol_type, cocktail_name)\<close>.
\<close>

definition merge_left ::
  "result_row list \<Rightarrow> (string option \<times> string option) list \<Rightarrow> (result_row \<times> string option) list" where
  "merge_left left right =
     concat (map (\<lambda>r.
       (let ms = filter (\<lambda>m. fst m = cocktail_name r) right
        in if ms = [] then [(r, None)] else map (\<lambda>m. (r, snd m)) ms)) left)"

definition generate_table_with_cocktails_and_their_main_ingr_type ::
  "(result_row list \<Rightarrow> result_row list) \<Rightarrow> clusterer
     \<Rightarrow> (nat \<times> string option \<times> string option) list" where
  "generate_table_with_cocktails_and_their_main_ingr_type sort_by_cocktail_name self =
     (let df = result_df sort_by_cocktail_name self;
          merged = merge_left df (max_volume_type_df df);
          projected = map (\<lambda>m. (snd m, cocktail_name (fst m))) merged
      in drop_duplicates snd (enumerate 0 projected))"

section \<open>The other methods of \<open>Clusterer\<close>\<close>

text \<open>
  \<open>generate_table_with_cocktails_and_style\<close>, \<open>transform_matrix\<close>, \<open>kmeans_clustering\<close>,
  \<open>spectral_clustering\<close> and the plotting methods hand their arguments to scikit-learn,
  matplotlib and plotly and return or show what these compute. They hold no logic of
  the repository's own and are not embedded.
\<close>

section \<open>Example tables\<close>

text \<open>
  The examples take for the float64 mean the mean in exact arithmetic. The two agree
  on the groups of the examples, where no sum and no quotient needs rounding: one
  value alone, the values 1 and 3, the values 2 and 3. They differ where float64
  rounds, as on 0.1 and 0.2, and \<open>exact_mean\<close> is not used there, nor on an empty list.
\<close>

definition exact_mean :: "rat list \<Rightarrow> rat" where
  "exact_mean vs = sum_list vs / of_nat (length vs)"


definition bar_volumes :: clusterer where
  "bar_volumes =
     \<lparr>cocktails = [], ingredients = [],
      cocktails_and_ingredients =
        [\<lparr>cocktail_name = Some ''Martini'', ingredient_name = Some ''Gin'', volume_oz = Some 2\<rparr>,
         \<lparr>cocktail_name = Some ''Martini'', ingredient_name = Some ''Vermouth'', volume_oz = None\<rparr>,
         \<lparr>cocktail_name = Some ''Daiquiri'', ingredient_name = Some ''Rum'', volume_oz = Some 2\<rparr>,
         \<lparr>cocktail_name = Some ''Martini'', ingredient_name = Some ''Gin'', volume_oz = Some 3\<rparr>]\<rparr>"

definition gin_tonic_bar :: clusterer where
  "gin_tonic_bar =
     \<lparr>cocktails = [\<lparr>cocktail.name = Some ''Martini'', cocktail.abv = Some 30\<rparr>],
      ingredients =
        [\<lparr>ingredient.name = Some ''Tonic'', ingredient.ingr_type = Some ''Mixer'',
          ingredient.generalized_type = Some ''Non-alcoholic''\<rparr>,
         \<lparr>ingredient.name = Some ''Vermouth'', ingredient.ingr_type = Some ''Fortified wine'',
          ingredient.generalized_type = Some ''Alcoholic''\<rparr>,
         \<lparr>ingredient.name = Some ''Gin'', ingredient.ingr_type = Some ''Gin'',
          ingredient.generalized_type = Some ''Alcoholic''\<rparr>,
         \<lparr>ingredient.name = Some ''Lemon'', ingredient.ingr_type = Some ''Fruit'',
          ingredient.generalized_type = Some ''Non-alcoholic''\<rparr>],
      cocktails_and_ingredients =
        [\<lparr>cocktail_name = Some ''Martini'', ingredient_name = Some ''Gin'', volume_oz = Some 2\<rparr>,
         \<lparr>cocktail_name = Some ''Martini'', ingredient_name = Some ''Tonic'', volume_oz = Some 4\<rparr>,
         \<lparr>cocktail_name = Some ''Martini'', ingredient_name = Some ''Vermouth'', volume_oz = Some 1\<rparr>,
         \<lparr>cocktail_name = Some ''Lemonade'', ingredient_name = Some ''Lemon'', volume_oz = None\<rparr>,
         \<lparr>cocktail_name = Some ''Lemonade'', ingredient_name = Some ''Water'', volume_oz = None\<rparr>]\<rparr>"

definition untyped_gin_bar :: clusterer where
  "untyped_gin_bar =
     \<lparr>cocktails = [],
      ingredients =
        [\<lparr>ingredient.name = Some ''Gin'', ingredient.ingr_type = None,
          ingredient.generalized_type = Some ''Alcoholic''\<rparr>,
         \<lparr>ingredient.name = Some ''Vermouth'', ingredient.ingr_type = Some ''Fortified wine'',
          ingredient.generalized_type = Some ''Alcoholic''\<rparr>],
      cocktails_and_ingredients =
        [\<lparr>cocktail_name = Some ''Martini'', ingredient_name = Some ''Gin'', volume_oz = Some 2\<rparr>,
         \<lparr>cocktail_name = Some ''Martini'', ingredient_name = Some ''Vermouth'', volume_oz = Some 1\<rparr>]\<rparr>"

definition untyped_lemon_bar :: clusterer where
  "untyped_lemon_bar =
     \<lparr>cocktails = [],
      ingredients =
        [\<lparr>ingredient.name = Some ''Lemon'', ingredient.ingr_type = None,
          ingredient.generalized_type = Some ''Non-alcoholic''\<rparr>],
      cocktails_and_ingredients =
        [\<lparr>cocktail_name = Some ''Lemonade'', ingredient_name = Some ''Lemon'', volume_oz = Some 1\<rparr>]\<rparr>"

section \<open>Lemmas on lists, joins and the pivot\<close>

lemma filter_drop_duplicates:
  "filter (\<lambda>y. f y = k) (drop_duplicates f xs) = take 1 (filter (\<lambda>y. f y = k) xs)"
proof (induction f xs rule: drop_duplicates.induct)
  case (1 cols)
  then show ?case by simp
next
  case (2 cols x xs)
  show ?case
  proof (cases "cols x = k")
    case True
    then have "filter (\<lambda>y. cols y = k) (filter (\<lambda>y. cols y \<noteq> cols x) xs) = []"
      by (simp add: filter_empty_conv)
    with 2 True show ?thesis by simp
  next
    case False
    then have "filter (\<lambda>y. cols y = k) (filter (\<lambda>y. cols y \<noteq> cols x) xs) = filter (\<lambda>y. cols y = k) xs"
      by (auto intro: filter_cong)
    with 2 False show ?thesis by simp
  qed
qed

lemma set_drop_duplicates_subset: "set (drop_duplicates f xs) \<subseteq> set xs"
  by (induction f xs rule: drop_duplicates.induct) auto

lemma image_set_drop_duplicates: "f ` set (drop_duplicates f xs) = f ` set xs"
proof
  show "f ` set (drop_duplicates f xs) \<subseteq> f ` set xs"
    using set_drop_duplicates_subset [of f xs] by blast
  show "f ` set xs \<subseteq> f ` set (drop_duplicates f xs)"
  proof
    fix k assume "k \<in> f ` set xs"
    then obtain x ys where "filter (\<lambda>y. f y = k) xs = x # ys"
      by (cases "filter (\<lambda>y. f y = k) xs") (auto simp: filter_empty_conv)
    then have "filter (\<lambda>y. f y = k) (drop_duplicates f xs) = [x]"
      by (simp add: filter_drop_duplicates)
    then have "x \<in> set (filter (\<lambda>y. f y = k) (drop_duplicates f xs))"
      by simp
    then show "k \<in> f ` set (drop_duplicates f xs)"
      by auto
  qed
qed

lemma filter_head_find: "filter P xs = x # ys \<Longrightarrow> find P xs = Some x"
  by (induction xs) (auto split: if_splits)

lemma filter_head_refine:
  "filter P xs = x # ys \<Longrightarrow> Q x \<Longrightarrow> (\<And>y. Q y \<Longrightarrow> P y) \<Longrightarrow> \<exists>zs. filter Q xs = x # zs"
  by (induction xs) (auto split: if_splits)

lemma sorted_filter_head_least:
  fixes K :: "'a \<Rightarrow> 'k::linorder"
  assumes "sorted (map K xs)" and "filter P xs = x # ys" and "r \<in> set xs" and "P r"
  shows "K x \<le> K r"
proof -
  have "sorted (map K (filter P xs))"
    using assms(1) by (rule sorted_filter)
  then have "\<forall>y\<in>set ys. K x \<le> K y"
    using assms(2) by simp
  moreover have "r \<in> set (filter P xs)"
    using assms(3,4) by simp
  ultimately show ?thesis
    using assms(2) by auto
qed

lemma reset_index_rows:
  "(\<exists>i. (i, row) \<in> set (drop_duplicates snd (enumerate 0 rows))) \<longleftrightarrow> row \<in> set rows"
proof -
  have "snd ` set (drop_duplicates snd (enumerate 0 rows)) = snd ` set (enumerate 0 rows)"
    by (rule image_set_drop_duplicates)
  also have "\<dots> = set (map snd (enumerate 0 rows))"
    by (simp only: set_map)
  also have "\<dots> = set rows"
    by simp
  finally have "snd ` set (drop_duplicates snd (enumerate 0 rows)) = set rows" .
  then show ?thesis by force
qed

lemma name_key_inj: "name_key a = name_key b \<longleftrightarrow> a = b"
  by (auto simp: name_key_def split: option.splits)

lemma volume_key_inj: "volume_key a = volume_key b \<longleftrightarrow> a = b"
  by (auto simp: volume_key_def split: option.splits)

lemma volume_key_le:
  "volume_key a \<le> volume_key b \<Longrightarrow> b = Some v \<Longrightarrow> \<exists>v0. a = Some v0 \<and> v \<le> v0"
  by (auto simp: volume_key_def split: option.splits)

lemma merge_left_projected:
  "(p, c) \<in> set (map (\<lambda>m. (snd m, cocktail_name (fst m))) (merge_left df mv)) \<longleftrightarrow>
     (\<exists>r\<in>set df. cocktail_name r = c \<and>
        (if filter (\<lambda>m. fst m = c) mv = [] then p = None
         else p \<in> snd ` set (filter (\<lambda>m. fst m = c) mv)))"
  by (auto simp: merge_left_def Let_def split: if_splits) force+

lemma max_volume_type_df_filter:
  "filter (\<lambda>m. fst m = c) (max_volume_type_df df) =
     map (\<lambda>r. (cocktail_name r, result_row.ingr_type r))
       (take 1 (filter (\<lambda>r. cocktail_name r = c)
         (sort_key (\<lambda>r. (name_key (cocktail_name r), volume_key (volume_oz r)))
           (filter (\<lambda>r. result_row.generalized_type r = Some ''Alcoholic'') df))))"
  by (simp add: max_volume_type_df_def filter_map comp_def filter_drop_duplicates)

lemma join_left_abv_sound:
  assumes "w \<in> set (join_left_abv left right)"
  shows "\<exists>cr\<in>set left. cocktail_name w = cocktail_name cr
           \<and> ingredient_name w = ingredient_name cr \<and> volume_oz w = volume_oz cr"
  using assms by (auto simp: join_left_abv_def Let_def add_abv_def split: if_splits)

lemma join_left_abv_complete:
  assumes "cr \<in> set left"
  shows "\<exists>w\<in>set (join_left_abv left right). cocktail_name w = cocktail_name cr
           \<and> ingredient_name w = ingredient_name cr \<and> volume_oz w = volume_oz cr"
proof (cases "filter (\<lambda>c. cocktail.name c = cocktail_name cr) right")
  case Nil
  then have "add_abv cr None \<in> set (let ms = filter (\<lambda>c. cocktail.name c = cocktail_name cr) right
        in if ms = [] then [add_abv cr None] else map (\<lambda>c. add_abv cr (cocktail.abv c)) ms)"
    by simp
  then have "add_abv cr None \<in> set (join_left_abv left right)"
    unfolding join_left_abv_def set_concat set_map using assms by blast
  then show ?thesis
    by (rule bexI [rotated]) (simp add: add_abv_def)
next
  case (Cons m ms)
  then have "m \<in> set (filter (\<lambda>c. cocktail.name c = cocktail_name cr) right)"
    by simp
  then have "add_abv cr (cocktail.abv m) \<in> set (let ms = filter (\<lambda>c. cocktail.name c = cocktail_name cr) right
        in if ms = [] then [add_abv cr None] else map (\<lambda>c. add_abv cr (cocktail.abv c)) ms)"
    using Cons by (simp add: Let_def)
  then have "add_abv cr (cocktail.abv m) \<in> set (join_left_abv left right)"
    unfolding join_left_abv_def set_concat set_map using assms by blast
  then show ?thesis
    by (rule bexI [rotated]) (simp add: add_abv_def)
qed

lemma merge_inner_iff:
  "r \<in> set (merge_inner left right) \<longleftrightarrow>
     (\<exists>i\<in>set left. \<exists>w\<in>set right. ingredient_name w = ingredient.name i \<and> r = add_type i w)"
  by (auto simp: merge_inner_def)

lemma joined_df_rows:
  "(\<exists>r\<in>set (joined_df self). cocktail_name r = c \<and> ingredient_name r = n \<and> volume_oz r = v
        \<and> result_row.ingr_type r = t \<and> result_row.generalized_type r = g) \<longleftrightarrow>
   (\<exists>cr\<in>set (cocktails_and_ingredients self). \<exists>ing\<in>set (ingredients self).
        ingredient_name cr = ingredient.name ing \<and> cocktail_name cr = c
        \<and> ingredient_name cr = n \<and> volume_oz cr = v
        \<and> ingredient.ingr_type ing = t \<and> t \<noteq> None \<and> ingredient.generalized_type ing = g)"
  (is "?L \<longleftrightarrow> ?R")
proof
  assume ?L
  then obtain r where r: "r \<in> set (joined_df self)" "cocktail_name r = c" "ingredient_name r = n"
      "volume_oz r = v" "result_row.ingr_type r = t" "result_row.generalized_type r = g"
    by blast
  from r(1) have typed: "result_row.ingr_type r \<noteq> None"
    and mem: "r \<in> set (merge_inner (ingredients self)
                 (join_left_abv (cocktails_and_ingredients self) (cocktails self)))"
    by (simp_all add: joined_df_def dropna_type_def)
  from mem obtain i w where iw: "i \<in> set (ingredients self)"
      "w \<in> set (join_left_abv (cocktails_and_ingredients self) (cocktails self))"
      "ingredient_name w = ingredient.name i" "r = add_type i w"
    by (auto simp: merge_inner_iff)
  from join_left_abv_sound [OF iw(2)] obtain cr where cr:
      "cr \<in> set (cocktails_and_ingredients self)" "cocktail_name w = cocktail_name cr"
      "ingredient_name w = ingredient_name cr" "volume_oz w = volume_oz cr"
    by blast
  show ?R
    using r typed iw cr by (intro bexI [of _ cr] bexI [of _ i]) (simp_all add: add_type_def)
next
  assume ?R
  then obtain cr ing where ci: "cr \<in> set (cocktails_and_ingredients self)"
      "ing \<in> set (ingredients self)" "ingredient_name cr = ingredient.name ing"
      "cocktail_name cr = c" "ingredient_name cr = n" "volume_oz cr = v"
      "ingredient.ingr_type ing = t" "t \<noteq> None" "ingredient.generalized_type ing = g"
    by blast
  from join_left_abv_complete [OF ci(1), of "cocktails self"] obtain w where w:
      "w \<in> set (join_left_abv (cocktails_and_ingredients self) (cocktails self))"
      "cocktail_name w = cocktail_name cr" "ingredient_name w = ingredient_name cr"
      "volume_oz w = volume_oz cr"
    by blast
  have "add_type ing w \<in> set (merge_inner (ingredients self)
          (join_left_abv (cocktails_and_ingredients self) (cocktails self)))"
    unfolding merge_inner_iff using ci w by (intro bexI [of _ ing] bexI [of _ w]) simp_all
  moreover have "result_row.ingr_type (add_type ing w) \<noteq> None"
    using ci by (simp add: add_type_def)
  ultimately have "add_type ing w \<in> set (joined_df self)"
    by (simp add: joined_df_def dropna_type_def)
  then show ?L
    using ci w by (intro bexI [of _ "add_type ing w"]) (simp_all add: add_type_def)
qed

lemma set_sorted_uniques: "set (sorted_uniques xs) = set xs"
  by (simp add: sorted_uniques_def)

lemma distinct_sorted_uniques: "distinct (sorted_uniques xs)"
  by (simp add: sorted_uniques_def)

lemma group_values_fillna:
  "group_values (fillna rows) c i =
     map (\<lambda>r. fillna_volume (volume_oz r))
       (filter (\<lambda>r. fillna_label (cocktail_name r) = c \<and> fillna_label (ingredient_name r) = i) rows)"
  by (simp add: group_values_def fillna_def filter_map comp_def)

lemma index_matrix:
  "index (generate_cocktails_and_ingredients_matrix_with_volumes float64_mean self) =
     sorted_uniques (map (\<lambda>r. fillna_label (cocktail_name r)) (cocktails_and_ingredients self))"
  by (simp add: generate_cocktails_and_ingredients_matrix_with_volumes_def pivot_table_def
      Let_def fillna_def comp_def)

lemma columns_matrix:
  "columns (generate_cocktails_and_ingredients_matrix_with_volumes float64_mean self) =
     sorted_uniques (map (\<lambda>r. fillna_label (ingredient_name r)) (cocktails_and_ingredients self))"
  by (simp add: generate_cocktails_and_ingredients_matrix_with_volumes_def pivot_table_def
      Let_def fillna_def comp_def)

lemma data_matrix:
  "data (generate_cocktails_and_ingredients_matrix_with_volumes float64_mean self) =
     map (\<lambda>c. map (\<lambda>i. pivot_cell float64_mean 0 (fillna (cocktails_and_ingredients self)) c i)
                 (columns (generate_cocktails_and_ingredients_matrix_with_volumes float64_mean self)))
       (index (generate_cocktails_and_ingredients_matrix_with_volumes float64_mean self))"
  by (simp add: generate_cocktails_and_ingredients_matrix_with_volumes_def pivot_table_def Let_def)

lemma cell_matrix:
  assumes "a < length (index (generate_cocktails_and_ingredients_matrix_with_volumes float64_mean self))"
    and "b < length (columns (generate_cocktails_and_ingredients_matrix_with_volumes float64_mean self))"
  shows "data (generate_cocktails_and_ingredients_matrix_with_volumes float64_mean self) ! a ! b =
     pivot_cell float64_mean 0 (fillna (cocktails_and_ingredients self))
       (index (generate_cocktails_and_ingredients_matrix_with_volumes float64_mean self) ! a)
       (columns (generate_cocktails_and_ingredients_matrix_with_volumes float64_mean self) ! b)"
  using assms by (subst data_matrix) simp

lemma output_rows:
  "(\<exists>i. (i, p, c) \<in> set (generate_table_with_cocktails_and_their_main_ingr_type srt self)) \<longleftrightarrow>
     (\<exists>r\<in>set (result_df srt self). cocktail_name r = c \<and>
        (if filter (\<lambda>m. fst m = c) (max_volume_type_df (result_df srt self)) = [] then p = None
         else p \<in> snd ` set (filter (\<lambda>m. fst m = c) (max_volume_type_df (result_df srt self)))))"
  unfolding generate_table_with_cocktails_and_their_main_ingr_type_def Let_def
    reset_index_rows merge_left_projected ..

lemma no_alcohol_no_max_row:
  assumes "\<forall>r\<in>set df. cocktail_name r = c \<longrightarrow> result_row.generalized_type r \<noteq> Some ''Alcoholic''"
  shows "filter (\<lambda>m. fst m = c) (max_volume_type_df df) = []"
  using assms by (auto simp: max_volume_type_df_filter filter_empty_conv)

lemma alcohol_max_row:
  assumes "r1 \<in> set df" and "cocktail_name r1 = c"
    and "result_row.generalized_type r1 = Some ''Alcoholic''"
  shows "\<exists>r0. filter (\<lambda>m. fst m = c) (max_volume_type_df df) = [(c, result_row.ingr_type r0)]
     \<and> find (\<lambda>r. cocktail_name r = c \<and> result_row.generalized_type r = Some ''Alcoholic''
                  \<and> volume_oz r = volume_oz r0) df = Some r0
     \<and> (\<forall>r\<in>set df. cocktail_name r = c \<and> result_row.generalized_type r = Some ''Alcoholic''
           \<longrightarrow> volume_key (volume_oz r0) \<le> volume_key (volume_oz r))"
proof -
  define K :: "result_row \<Rightarrow> (nat \<times> string) \<times> (nat \<times> rat)"
    where "K = (\<lambda>r. (name_key (cocktail_name r), volume_key (volume_oz r)))"
  define alc where "alc = filter (\<lambda>r. result_row.generalized_type r = Some ''Alcoholic'') df"
  define S where "S = sort_key K alc"
  have "r1 \<in> set S"
    using assms by (simp add: S_def alc_def)
  then have "filter (\<lambda>r. cocktail_name r = c) S \<noteq> []"
    using assms(2) by (auto simp: filter_empty_conv)
  then obtain r0 rest where hd: "filter (\<lambda>r. cocktail_name r = c) S = r0 # rest"
    by (cases "filter (\<lambda>r. cocktail_name r = c) S") auto
  then have "r0 \<in> set (filter (\<lambda>r. cocktail_name r = c) S)"
    by simp
  then have r0: "r0 \<in> set df" "cocktail_name r0 = c"
      "result_row.generalized_type r0 = Some ''Alcoholic''"
    by (simp_all add: S_def alc_def)
  have mv: "filter (\<lambda>m. fst m = c) (max_volume_type_df df) = [(c, result_row.ingr_type r0)]"
    using hd r0(2) unfolding max_volume_type_df_filter S_def alc_def K_def by simp
  have sorted: "sorted (map K S)"
    by (simp add: S_def)
  have least: "volume_key (volume_oz r0) \<le> volume_key (volume_oz r)"
    if "r \<in> set df" "cocktail_name r = c" "result_row.generalized_type r = Some ''Alcoholic''" for r
  proof -
    have "r \<in> set S"
      using that by (simp add: S_def alc_def)
    from sorted_filter_head_least [OF sorted hd this that(2)]
    show ?thesis
      using that(2) r0(2) by (simp add: K_def)
  qed
  have same_key: "K y = K r0 \<longleftrightarrow> cocktail_name y = c \<and> volume_oz y = volume_oz r0" for y
    using r0(2) by (auto simp: K_def name_key_inj volume_key_inj)
  have "\<exists>zs. filter (\<lambda>y. K y = K r0) S = r0 # zs"
    using hd by (rule filter_head_refine) (simp_all add: same_key)
  then obtain zs where "filter (\<lambda>y. K y = K r0) alc = r0 # zs"
    unfolding S_def sort_key_stable by blast
  then have "filter (\<lambda>r. result_row.generalized_type r = Some ''Alcoholic'' \<and> K r = K r0) df = r0 # zs"
    by (simp add: alc_def)
  then have "find (\<lambda>r. result_row.generalized_type r = Some ''Alcoholic'' \<and> K r = K r0) df = Some r0"
    by (rule filter_head_find)
  moreover have "(\<lambda>r. result_row.generalized_type r = Some ''Alcoholic'' \<and> K r = K r0) =
      (\<lambda>r. cocktail_name r = c \<and> result_row.generalized_type r = Some ''Alcoholic''
                  \<and> volume_oz r = volume_oz r0)"
    by (auto simp: same_key)
  ultimately have first: "find (\<lambda>r. cocktail_name r = c \<and> result_row.generalized_type r = Some ''Alcoholic''
                  \<and> volume_oz r = volume_oz r0) df = Some r0"
    by simp
  from mv first least show ?thesis
    by blast
qed

section \<open>The volume matrix\<close>




text \<open>
  Claim C3. The index of the matrix lists every cocktail label of the compositions
  exactly once and nothing else; the columns list every ingredient label of the
  compositions exactly once and nothing else; and the matrix is dense: one data row
  per cocktail, one cell per ingredient. A cell whose (cocktail, ingredient) pair
  has no composition row is \<open>0\<close>. A cell whose pair has rows is the float64 mean of
  their volumes, with every missing volume replaced by \<open>0.01\<close>.
\<close>

theorem volume_matrix_one_row_per_cocktail_epsilon_and_zero:
  "distinct (index (generate_cocktails_and_ingredients_matrix_with_volumes float64_mean self))
   \<and> set (index (generate_cocktails_and_ingredients_matrix_with_volumes float64_mean self)) =
       (\<lambda>r. fillna_label (cocktail_name r)) ` set (cocktails_and_ingredients self)
   \<and> distinct (columns (generate_cocktails_and_ingredients_matrix_with_volumes float64_mean self))
   \<and> set (columns (generate_cocktails_and_ingredients_matrix_with_volumes float64_mean self)) =
       (\<lambda>r. fillna_label (ingredient_name r)) ` set (cocktails_and_ingredients self)
   \<and> length (data (generate_cocktails_and_ingredients_matrix_with_volumes float64_mean self)) =
       length (index (generate_cocktails_and_ingredients_matrix_with_volumes float64_mean self))
   \<and> (\<forall>row \<in> set (data (generate_cocktails_and_ingredients_matrix_with_volumes float64_mean self)).
         length row = length (columns (generate_cocktails_and_ingredients_matrix_with_volumes float64_mean self)))
   \<and> (\<forall>a < length (index (generate_cocktails_and_ingredients_matrix_with_volumes float64_mean self)).
      \<forall>b < length (columns (generate_cocktails_and_ingredients_matrix_with_volumes float64_mean self)).
        (let grp = filter (\<lambda>r. fillna_label (cocktail_name r) =
                                index (generate_cocktails_and_ingredients_matrix_with_volumes float64_mean self) ! a
                            \<and> fillna_label (ingredient_name r) =
                                columns (generate_cocktails_and_ingredients_matrix_with_volumes float64_mean self) ! b)
                     (cocktails_and_ingredients self)
         in (grp = [] \<longrightarrow>
               data (generate_cocktails_and_ingredients_matrix_with_volumes float64_mean self) ! a ! b = 0)
          \<and> (grp \<noteq> [] \<longrightarrow>
               data (generate_cocktails_and_ingredients_matrix_with_volumes float64_mean self) ! a ! b =
                 float64_mean
                   (map (\<lambda>r. case volume_oz r of None \<Rightarrow> 1 / 100 | Some v \<Rightarrow> v) grp))))"
proof -
  let ?M = "generate_cocktails_and_ingredients_matrix_with_volumes float64_mean self"
  have "distinct (index ?M)"
    by (simp add: index_matrix distinct_sorted_uniques)
  moreover have "set (index ?M) =
      (\<lambda>r. fillna_label (cocktail_name r)) ` set (cocktails_and_ingredients self)"
    by (simp add: index_matrix set_sorted_uniques)
  moreover have "distinct (columns ?M)"
    by (simp add: columns_matrix distinct_sorted_uniques)
  moreover have "set (columns ?M) =
      (\<lambda>r. fillna_label (ingredient_name r)) ` set (cocktails_and_ingredients self)"
    by (simp add: columns_matrix set_sorted_uniques)
  moreover have "length (data ?M) = length (index ?M)"
    by (subst data_matrix) simp
  moreover have "\<forall>row \<in> set (data ?M). length row = length (columns ?M)"
    by (subst data_matrix) auto
  moreover have "\<forall>a < length (index ?M). \<forall>b < length (columns ?M).
        (let grp = filter (\<lambda>r. fillna_label (cocktail_name r) = index ?M ! a
                            \<and> fillna_label (ingredient_name r) = columns ?M ! b)
                     (cocktails_and_ingredients self)
         in (grp = [] \<longrightarrow> data ?M ! a ! b = 0)
          \<and> (grp \<noteq> [] \<longrightarrow> data ?M ! a ! b =
                 float64_mean
                   (map (\<lambda>r. case volume_oz r of None \<Rightarrow> 1 / 100 | Some v \<Rightarrow> v) grp)))"
    by (simp add: cell_matrix pivot_cell_def group_values_fillna Let_def fillna_volume_def)
  ultimately show ?thesis
    by blast
qed

text \<open>
  On \<open>bar_volumes\<close>: two cocktails, two rows; three ingredients, three columns;
  (Daiquiri, Gin) is absent and its cell is 0; (Martini, Vermouth) has one row with a
  missing volume and its cell is the mean of the one value 0.01.
\<close>

theorem volume_matrix_one_row_per_cocktail_epsilon_and_zero_witness:
  "index (generate_cocktails_and_ingredients_matrix_with_volumes exact_mean bar_volumes) =
      [Str ''Daiquiri'', Str ''Martini'']
   \<and> columns (generate_cocktails_and_ingredients_matrix_with_volumes exact_mean bar_volumes) =
      [Str ''Gin'', Str ''Rum'', Str ''Vermouth'']
   \<and> length (data (generate_cocktails_and_ingredients_matrix_with_volumes exact_mean bar_volumes)) = 2
   \<and> data (generate_cocktails_and_ingredients_matrix_with_volumes exact_mean bar_volumes) ! 0 ! 0 = 0
   \<and> data (generate_cocktails_and_ingredients_matrix_with_volumes exact_mean bar_volumes) ! 1 ! 2 = exact_mean [1 / 100]
   \<and> exact_mean [1 / 100] = 1 / 100"
proof -
  have idx: "index (generate_cocktails_and_ingredients_matrix_with_volumes exact_mean bar_volumes) =
      [Str ''Daiquiri'', Str ''Martini'']"
    by code_simp
  have cols: "columns (generate_cocktails_and_ingredients_matrix_with_volumes exact_mean bar_volumes) =
      [Str ''Gin'', Str ''Rum'', Str ''Vermouth'']"
    by code_simp
  note inst = volume_matrix_one_row_per_cocktail_epsilon_and_zero [of exact_mean bar_volumes]
  from inst have len: "length (data (generate_cocktails_and_ingredients_matrix_with_volumes exact_mean bar_volumes)) = 2"
    by (simp add: idx)
  from inst have cells: "\<forall>a < 2. \<forall>b < 3.
        (let grp = filter (\<lambda>r. fillna_label (cocktail_name r) = [Str ''Daiquiri'', Str ''Martini''] ! a
                            \<and> fillna_label (ingredient_name r) = [Str ''Gin'', Str ''Rum'', Str ''Vermouth''] ! b)
                     (cocktails_and_ingredients bar_volumes)
         in (grp = [] \<longrightarrow>
               data (generate_cocktails_and_ingredients_matrix_with_volumes exact_mean bar_volumes) ! a ! b = 0)
          \<and> (grp \<noteq> [] \<longrightarrow>
               data (generate_cocktails_and_ingredients_matrix_with_volumes exact_mean bar_volumes) ! a ! b =
                 exact_mean
                   (map (\<lambda>r. case volume_oz r of None \<Rightarrow> 1 / 100 | Some v \<Rightarrow> v) grp)))"
    by (simp add: idx cols)
  have rows: "cocktails_and_ingredients bar_volumes =
      [\<lparr>cocktail_name = Some ''Martini'', ingredient_name = Some ''Gin'', volume_oz = Some 2\<rparr>,
       \<lparr>cocktail_name = Some ''Martini'', ingredient_name = Some ''Vermouth'', volume_oz = None\<rparr>,
       \<lparr>cocktail_name = Some ''Daiquiri'', ingredient_name = Some ''Rum'', volume_oz = Some 2\<rparr>,
       \<lparr>cocktail_name = Some ''Martini'', ingredient_name = Some ''Gin'', volume_oz = Some 3\<rparr>]"
    by (simp add: bar_volumes_def)
  from cells [rule_format, of 0 0]
  have c00: "data (generate_cocktails_and_ingredients_matrix_with_volumes exact_mean bar_volumes) ! 0 ! 0 = 0"
    by (simp add: rows fillna_label_def Let_def)
  from cells [rule_format, of 1 2]
  have c12: "data (generate_cocktails_and_ingredients_matrix_with_volumes exact_mean bar_volumes) ! 1 ! 2 = exact_mean [1 / 100]"
    by (simp add: rows fillna_label_def Let_def)
  have one: "exact_mean [1 / 100] = 1 / 100"
    by (simp add: exact_mean_def)
  from idx cols len c00 c12 one show ?thesis
    by blast
qed

section \<open>The table of primary alcohol types\<close>

text \<open>
  Claim C2, as the code has it. Line 52 drops the rows whose \<open>type\<close> is missing before
  the alcoholic rows are ranked. Let a cocktail have a composition row whose
  ingredient is in the ingredients table with generalized type "Alcoholic" and a
  type that is present. Then there is a row \<open>r0\<close> of the table of line 55 that is the
  first, in the order of that table, among the cocktail's alcoholic rows of its
  volume; no alcoholic row of the cocktail has a larger volume (a missing volume
  ranks below every volume); and the output gives the cocktail the primary alcohol
  type of \<open>r0\<close> and no other. The sort of line 55 is any function that keeps the set
  of rows.
\<close>

theorem primary_alcohol_type_is_type_of_largest_typed_alcoholic_row:
  assumes srt: "\<And>xs. set (srt xs) = set xs"
    and row: "cr \<in> set (cocktails_and_ingredients self)" "cocktail_name cr = c"
    and ing: "ing \<in> set (ingredients self)" "ingredient_name cr = ingredient.name ing"
      "ingredient.generalized_type ing = Some ''Alcoholic''"
      "ingredient.ingr_type ing \<noteq> None"
  shows "\<exists>r0 t.
      find (\<lambda>r. cocktail_name r = c \<and> result_row.generalized_type r = Some ''Alcoholic''
                 \<and> volume_oz r = volume_oz r0) (result_df srt self) = Some r0
    \<and> (\<forall>r\<in>set (joined_df self).
          cocktail_name r = c \<and> result_row.generalized_type r = Some ''Alcoholic'' \<longrightarrow>
          (\<forall>v. volume_oz r = Some v \<longrightarrow> (\<exists>v0. volume_oz r0 = Some v0 \<and> v \<le> v0)))
    \<and> result_row.ingr_type r0 = Some t
    \<and> (\<exists>i. (i, Some t, c) \<in> set (generate_table_with_cocktails_and_their_main_ingr_type srt self))
    \<and> (\<forall>i p. (i, p, c) \<in> set (generate_table_with_cocktails_and_their_main_ingr_type srt self)
          \<longrightarrow> p = Some t)"
proof -
  let ?df = "result_df srt self"
  have set_df: "set ?df = set (joined_df self)"
    by (simp add: result_df_def srt)
  have "\<exists>r\<in>set (joined_df self). cocktail_name r = c \<and> ingredient_name r = ingredient_name cr
        \<and> volume_oz r = volume_oz cr \<and> result_row.ingr_type r = ingredient.ingr_type ing
        \<and> result_row.generalized_type r = Some ''Alcoholic''"
    unfolding joined_df_rows using row ing by blast
  then obtain r1 where r1: "r1 \<in> set ?df" "cocktail_name r1 = c"
      "result_row.generalized_type r1 = Some ''Alcoholic''"
    unfolding set_df by blast
  from alcohol_max_row [OF r1] obtain r0 where
    mv: "filter (\<lambda>m. fst m = c) (max_volume_type_df ?df) = [(c, result_row.ingr_type r0)]"
    and first: "find (\<lambda>r. cocktail_name r = c \<and> result_row.generalized_type r = Some ''Alcoholic''
                  \<and> volume_oz r = volume_oz r0) ?df = Some r0"
    and least: "\<forall>r\<in>set ?df. cocktail_name r = c \<and> result_row.generalized_type r = Some ''Alcoholic''
           \<longrightarrow> volume_key (volume_oz r0) \<le> volume_key (volume_oz r)"
    by blast
  from first have "r0 \<in> set ?df"
    by (auto simp: find_Some_iff)
  then have "result_row.ingr_type r0 \<noteq> None"
    by (simp add: set_df joined_df_def dropna_type_def)
  then obtain t where t: "result_row.ingr_type r0 = Some t"
    by blast
  have largest: "\<forall>r\<in>set (joined_df self).
          cocktail_name r = c \<and> result_row.generalized_type r = Some ''Alcoholic'' \<longrightarrow>
          (\<forall>v. volume_oz r = Some v \<longrightarrow> (\<exists>v0. volume_oz r0 = Some v0 \<and> v \<le> v0))"
    using least unfolding set_df by (blast dest: volume_key_le)
  have out: "(\<exists>i. (i, p, c) \<in> set (generate_table_with_cocktails_and_their_main_ingr_type srt self))
      \<longleftrightarrow> p = Some t" for p
    unfolding output_rows mv using r1(1,2) t by auto
  from out [of "Some t"] have ex: "\<exists>i. (i, Some t, c) \<in> set (generate_table_with_cocktails_and_their_main_ingr_type srt self)"
    by simp
  have uniq: "\<forall>i p. (i, p, c) \<in> set (generate_table_with_cocktails_and_their_main_ingr_type srt self)
          \<longrightarrow> p = Some t"
    using out by blast
  from first largest t ex uniq show ?thesis
    by blast
qed

text \<open>
  On \<open>gin_tonic_bar\<close> the Martini has Gin (2 oz), Tonic (4 oz, not alcoholic) and
  Vermouth (1 oz); the hypotheses hold with the Gin row, and the only primary alcohol
  type the output gives the Martini is the type of Gin.
\<close>

theorem primary_alcohol_type_is_type_of_largest_typed_alcoholic_row_witness:
  "\<lparr>cocktail_name = Some ''Martini'', ingredient_name = Some ''Gin'', volume_oz = Some 2\<rparr>
     \<in> set (cocktails_and_ingredients gin_tonic_bar)
   \<and> \<lparr>ingredient.name = Some ''Gin'', ingredient.ingr_type = Some ''Gin'',
       ingredient.generalized_type = Some ''Alcoholic''\<rparr> \<in> set (ingredients gin_tonic_bar)
   \<and> {p. \<exists>i. (i, p, Some ''Martini'') \<in> set (generate_table_with_cocktails_and_their_main_ingr_type
          stable_sort_by_cocktail_name gin_tonic_bar)} = {Some ''Gin''}"
proof -
  let ?out = "generate_table_with_cocktails_and_their_main_ingr_type
      stable_sort_by_cocktail_name gin_tonic_bar"
  have srt: "\<And>xs. set (stable_sort_by_cocktail_name xs) = set xs"
    by (simp add: stable_sort_by_cocktail_name_def)
  have row: "\<lparr>cocktail_name = Some ''Martini'', ingredient_name = Some ''Gin'', volume_oz = Some 2\<rparr>
     \<in> set (cocktails_and_ingredients gin_tonic_bar)"
    by (simp add: gin_tonic_bar_def)
  have ing: "\<lparr>ingredient.name = Some ''Gin'', ingredient.ingr_type = Some ''Gin'',
       ingredient.generalized_type = Some ''Alcoholic''\<rparr> \<in> set (ingredients gin_tonic_bar)"
    by (simp add: gin_tonic_bar_def)
  from primary_alcohol_type_is_type_of_largest_typed_alcoholic_row
    [of stable_sort_by_cocktail_name _ gin_tonic_bar "Some ''Martini''", OF srt row _ ing]
  obtain t where ex: "\<exists>i. (i, Some t, Some ''Martini'') \<in> set ?out"
    and uniq: "\<forall>i p. (i, p, Some ''Martini'') \<in> set ?out \<longrightarrow> p = Some t"
    by auto
  have out: "?out = [(0, None, Some ''Lemonade''), (1, Some ''Gin'', Some ''Martini'')]"
    by code_simp
  from ex have "t = ''Gin''"
    unfolding out by simp
  with ex uniq have "{p. \<exists>i. (i, p, Some ''Martini'') \<in> set ?out} = {Some ''Gin''}"
    by blast
  with row ing show ?thesis
    by (intro conjI)
qed

text \<open>
  Claim C2 as stated fails: in \<open>untyped_gin_bar\<close> the alcoholic ingredient of the
  Martini with the largest volume is Gin, 2 oz, whose type is missing; the output
  gives the Martini the type of Vermouth, 1 oz.
\<close>

theorem untyped_largest_alcohol_counterexample:
  "merge_inner (ingredients untyped_gin_bar)
     (join_left_abv (cocktails_and_ingredients untyped_gin_bar) (cocktails untyped_gin_bar)) =
     [\<lparr>cocktail_name = Some ''Martini'', ingredient_name = Some ''Gin'', volume_oz = Some 2,
       abv = None, ingr_type = None, generalized_type = Some ''Alcoholic''\<rparr>,
      \<lparr>cocktail_name = Some ''Martini'', ingredient_name = Some ''Vermouth'', volume_oz = Some 1,
       abv = None, ingr_type = Some ''Fortified wine'', generalized_type = Some ''Alcoholic''\<rparr>]
   \<and> generate_table_with_cocktails_and_their_main_ingr_type stable_sort_by_cocktail_name
       untyped_gin_bar = [(0, Some ''Fortified wine'', Some ''Martini'')]"
  by code_simp

text \<open>
  Claim C10, as the code has it. Line 52 drops the rows whose \<open>type\<close> is missing
  before the table is merged with the primary alcohol types. Let a cocktail have a
  composition row whose ingredient is in the ingredients table with a type that is
  present, and let none of its rows with a present type be of generalized type
  "Alcoholic". Then the output holds the cocktail, with a missing primary alcohol
  type and no other. A cocktail all of whose rows in the inner join have a missing
  type has no row in the output.
\<close>

theorem cocktail_without_typed_alcohol_is_kept_with_missing_type:
  assumes srt: "\<And>xs. set (srt xs) = set xs"
  shows "(cr \<in> set (cocktails_and_ingredients self) \<and> cocktail_name cr = c
          \<and> ing \<in> set (ingredients self) \<and> ingredient_name cr = ingredient.name ing
          \<and> ingredient.ingr_type ing \<noteq> None
          \<and> (\<forall>cr'\<in>set (cocktails_and_ingredients self). \<forall>ing'\<in>set (ingredients self).
                cocktail_name cr' = c \<and> ingredient_name cr' = ingredient.name ing'
                  \<and> ingredient.ingr_type ing' \<noteq> None
                \<longrightarrow> ingredient.generalized_type ing' \<noteq> Some ''Alcoholic'')
        \<longrightarrow> (\<exists>i. (i, None, c) \<in> set (generate_table_with_cocktails_and_their_main_ingr_type srt self))
          \<and> (\<forall>i p. (i, p, c) \<in> set (generate_table_with_cocktails_and_their_main_ingr_type srt self)
                \<longrightarrow> p = None))
    \<and> ((\<forall>cr'\<in>set (cocktails_and_ingredients self). \<forall>ing'\<in>set (ingredients self).
            cocktail_name cr' = c \<and> ingredient_name cr' = ingredient.name ing'
            \<longrightarrow> ingredient.ingr_type ing' = None)
        \<longrightarrow> (\<forall>i p. (i, p, c) \<notin> set (generate_table_with_cocktails_and_their_main_ingr_type srt self)))"
proof (intro conjI impI)
  let ?df = "result_df srt self"
  have set_df: "set ?df = set (joined_df self)"
    by (simp add: result_df_def srt)
  assume kept: "cr \<in> set (cocktails_and_ingredients self) \<and> cocktail_name cr = c
          \<and> ing \<in> set (ingredients self) \<and> ingredient_name cr = ingredient.name ing
          \<and> ingredient.ingr_type ing \<noteq> None
          \<and> (\<forall>cr'\<in>set (cocktails_and_ingredients self). \<forall>ing'\<in>set (ingredients self).
                cocktail_name cr' = c \<and> ingredient_name cr' = ingredient.name ing'
                  \<and> ingredient.ingr_type ing' \<noteq> None
                \<longrightarrow> ingredient.generalized_type ing' \<noteq> Some ''Alcoholic'')"
  then have row: "cr \<in> set (cocktails_and_ingredients self)" "cocktail_name cr = c"
    and ing: "ing \<in> set (ingredients self)" "ingredient_name cr = ingredient.name ing"
      "ingredient.ingr_type ing \<noteq> None"
    and no_alcohol: "\<forall>cr'\<in>set (cocktails_and_ingredients self). \<forall>ing'\<in>set (ingredients self).
      cocktail_name cr' = c \<and> ingredient_name cr' = ingredient.name ing'
        \<and> ingredient.ingr_type ing' \<noteq> None
      \<longrightarrow> ingredient.generalized_type ing' \<noteq> Some ''Alcoholic''"
    by simp_all
  have "\<exists>r\<in>set (joined_df self). cocktail_name r = c \<and> ingredient_name r = ingredient_name cr
        \<and> volume_oz r = volume_oz cr \<and> result_row.ingr_type r = ingredient.ingr_type ing
        \<and> result_row.generalized_type r = ingredient.generalized_type ing"
    unfolding joined_df_rows using row ing by blast
  then obtain r1 where r1: "r1 \<in> set ?df" "cocktail_name r1 = c"
    unfolding set_df by blast
  have "result_row.generalized_type r \<noteq> Some ''Alcoholic''"
    if "r \<in> set ?df" "cocktail_name r = c" for r
  proof
    assume alc: "result_row.generalized_type r = Some ''Alcoholic''"
    from that have "r \<in> set (joined_df self)"
      by (simp add: set_df)
    with that(2) alc have "\<exists>r'\<in>set (joined_df self). cocktail_name r' = c
        \<and> ingredient_name r' = ingredient_name r \<and> volume_oz r' = volume_oz r
        \<and> result_row.ingr_type r' = result_row.ingr_type r
        \<and> result_row.generalized_type r' = Some ''Alcoholic''"
      by (intro bexI [of _ r]) simp_all
    then obtain cr' ing' where "cr' \<in> set (cocktails_and_ingredients self)"
        "ing' \<in> set (ingredients self)" "ingredient_name cr' = ingredient.name ing'"
        "cocktail_name cr' = c" "ingredient.ingr_type ing' \<noteq> None"
        "ingredient.generalized_type ing' = Some ''Alcoholic''"
      unfolding joined_df_rows by auto
    with no_alcohol [rule_format, of cr' ing'] show False
      by simp
  qed
  then have mv: "filter (\<lambda>m. fst m = c) (max_volume_type_df ?df) = []"
    by (intro no_alcohol_no_max_row) blast
  have out: "(\<exists>i. (i, p, c) \<in> set (generate_table_with_cocktails_and_their_main_ingr_type srt self))
      \<longleftrightarrow> p = None" for p
    unfolding output_rows mv using r1 by auto
  from out [of None]
  show "\<exists>i. (i, None, c) \<in> set (generate_table_with_cocktails_and_their_main_ingr_type srt self)"
    by simp
  from out
  show "\<forall>i p. (i, p, c) \<in> set (generate_table_with_cocktails_and_their_main_ingr_type srt self)
      \<longrightarrow> p = None"
    by blast
next
  let ?df = "result_df srt self"
  have set_df: "set ?df = set (joined_df self)"
    by (simp add: result_df_def srt)
  assume untyped: "\<forall>cr'\<in>set (cocktails_and_ingredients self). \<forall>ing'\<in>set (ingredients self).
      cocktail_name cr' = c \<and> ingredient_name cr' = ingredient.name ing'
      \<longrightarrow> ingredient.ingr_type ing' = None"
  have no_row: "cocktail_name r \<noteq> c" if "r \<in> set ?df" for r
  proof
    assume name: "cocktail_name r = c"
    from that have "r \<in> set (joined_df self)"
      by (simp add: set_df)
    with name have "\<exists>r'\<in>set (joined_df self). cocktail_name r' = c
        \<and> ingredient_name r' = ingredient_name r \<and> volume_oz r' = volume_oz r
        \<and> result_row.ingr_type r' = result_row.ingr_type r
        \<and> result_row.generalized_type r' = result_row.generalized_type r"
      by (intro bexI [of _ r]) simp_all
    then obtain cr' ing' where "cr' \<in> set (cocktails_and_ingredients self)"
        "ing' \<in> set (ingredients self)" "ingredient_name cr' = ingredient.name ing'"
        "cocktail_name cr' = c" "ingredient.ingr_type ing' \<noteq> None"
      unfolding joined_df_rows by auto
    with untyped [rule_format, of cr' ing'] show False
      by simp
  qed
  have "\<not> (\<exists>i. (i, p, c) \<in> set (generate_table_with_cocktails_and_their_main_ingr_type srt self))"
    for p
    unfolding output_rows using no_row by blast
  then show "\<forall>i p. (i, p, c) \<notin> set (generate_table_with_cocktails_and_their_main_ingr_type srt self)"
    by blast
qed

text \<open>
  On \<open>gin_tonic_bar\<close> the Lemonade has Lemon, a fruit, and Water, which is not in the
  ingredients table; the first hypothesis holds with the Lemon row, and the only
  primary alcohol type the output gives the Lemonade is the missing one. On
  \<open>untyped_lemon_bar\<close> the only ingredient of the Lemonade has no type, and the output
  has no row for it.
\<close>

theorem cocktail_without_typed_alcohol_is_kept_with_missing_type_witness:
  "\<lparr>cocktail_name = Some ''Lemonade'', ingredient_name = Some ''Lemon'', volume_oz = None\<rparr>
     \<in> set (cocktails_and_ingredients gin_tonic_bar)
   \<and> \<lparr>ingredient.name = Some ''Lemon'', ingredient.ingr_type = Some ''Fruit'',
       ingredient.generalized_type = Some ''Non-alcoholic''\<rparr> \<in> set (ingredients gin_tonic_bar)
   \<and> {p. \<exists>i. (i, p, Some ''Lemonade'') \<in> set (generate_table_with_cocktails_and_their_main_ingr_type
          stable_sort_by_cocktail_name gin_tonic_bar)} = {None}
   \<and> {p. \<exists>i. (i, p, Some ''Lemonade'') \<in> set (generate_table_with_cocktails_and_their_main_ingr_type
          stable_sort_by_cocktail_name untyped_lemon_bar)} = {}"
proof -
  let ?out = "generate_table_with_cocktails_and_their_main_ingr_type
      stable_sort_by_cocktail_name gin_tonic_bar"
  let ?out' = "generate_table_with_cocktails_and_their_main_ingr_type
      stable_sort_by_cocktail_name untyped_lemon_bar"
  have srt: "\<And>xs. set (stable_sort_by_cocktail_name xs) = set xs"
    by (simp add: stable_sort_by_cocktail_name_def)
  have row: "\<lparr>cocktail_name = Some ''Lemonade'', ingredient_name = Some ''Lemon'', volume_oz = None\<rparr>
     \<in> set (cocktails_and_ingredients gin_tonic_bar)"
    by (simp add: gin_tonic_bar_def)
  have ing: "\<lparr>ingredient.name = Some ''Lemon'', ingredient.ingr_type = Some ''Fruit'',
       ingredient.generalized_type = Some ''Non-alcoholic''\<rparr> \<in> set (ingredients gin_tonic_bar)"
    by (simp add: gin_tonic_bar_def)
  have no_alcohol: "\<forall>cr'\<in>set (cocktails_and_ingredients gin_tonic_bar).
      \<forall>ing'\<in>set (ingredients gin_tonic_bar).
      cocktail_name cr' = Some ''Lemonade'' \<and> ingredient_name cr' = ingredient.name ing'
        \<and> ingredient.ingr_type ing' \<noteq> None
      \<longrightarrow> ingredient.generalized_type ing' \<noteq> Some ''Alcoholic''"
    by (simp add: gin_tonic_bar_def)
  from cocktail_without_typed_alcohol_is_kept_with_missing_type
    [of stable_sort_by_cocktail_name
      "\<lparr>cocktail_name = Some ''Lemonade'', ingredient_name = Some ''Lemon'', volume_oz = None\<rparr>"
      gin_tonic_bar "Some ''Lemonade''"
      "\<lparr>ingredient.name = Some ''Lemon'', ingredient.ingr_type = Some ''Fruit'',
        ingredient.generalized_type = Some ''Non-alcoholic''\<rparr>", OF srt, THEN conjunct1]
    row ing no_alcohol
  have ex: "\<exists>i. (i, None, Some ''Lemonade'') \<in> set ?out"
    and uniq: "\<forall>i p. (i, p, Some ''Lemonade'') \<in> set ?out \<longrightarrow> p = None"
    by simp_all
  then have kept: "{p. \<exists>i. (i, p, Some ''Lemonade'') \<in> set ?out} = {None}"
    by blast
  have untyped: "\<forall>cr'\<in>set (cocktails_and_ingredients untyped_lemon_bar).
      \<forall>ing'\<in>set (ingredients untyped_lemon_bar).
      cocktail_name cr' = Some ''Lemonade'' \<and> ingredient_name cr' = ingredient.name ing'
      \<longrightarrow> ingredient.ingr_type ing' = None"
    by (simp add: untyped_lemon_bar_def)
  from cocktail_without_typed_alcohol_is_kept_with_missing_type
    [of stable_sort_by_cocktail_name _ untyped_lemon_bar "Some ''Lemonade''", OF srt, THEN conjunct2]
    untyped
  have "\<forall>i p. (i, p, Some ''Lemonade'') \<notin> set ?out'"
    by blast
  then have dropped: "{p. \<exists>i. (i, p, Some ''Lemonade'') \<in> set ?out'} = {}"
    by blast
  from row ing kept dropped show ?thesis
    by (intro conjI)
qed

text \<open>
  Claim C10 as stated fails: in \<open>untyped_lemon_bar\<close> the Lemonade is in the inner join
  of compositions and ingredients and has no alcoholic ingredient, but the type of
  its only ingredient is missing, line 52 drops the row, and the output is empty.
\<close>

theorem untyped_only_cocktail_dropped_counterexample:
  "merge_inner (ingredients untyped_lemon_bar)
     (join_left_abv (cocktails_and_ingredients untyped_lemon_bar) (cocktails untyped_lemon_bar)) =
     [\<lparr>cocktail_name = Some ''Lemonade'', ingredient_name = Some ''Lemon'', volume_oz = Some 1,
       abv = None, ingr_type = None, generalized_type = Some ''Non-alcoholic''\<rparr>]
   \<and> generate_table_with_cocktails_and_their_main_ingr_type stable_sort_by_cocktail_name
       untyped_lemon_bar = []"
  by code_simp

end
